theory Spec2Isabelle
  imports Complex_Main
begin

section \<open>Normalizing-flow distribution layers and the Bayesian estimator\<close>

text \<open>
  A shallow embedding of \<^verbatim>\<open>DistributionLayers.py\<close> and \<^verbatim>\<open>BayesianNFEstimator.py\<close>.

  \<^item> A tensor is represented by its trailing axis, the list of entries of one example.
    The source touches only that axis (\<^verbatim>\<open>t[..., a:b]\<close> and \<^verbatim>\<open>t.shape[-1]\<close>); the leading
    batch axes are mapped over pointwise.
  \<^item> Tensor entries are real numbers: the functions of the source are read as the
    mathematical functions they denote, rounding and overflow of floats are not part of
    the model.
  \<^item> Python integers are \<open>int\<close>; a failed \<^verbatim>\<open>assert\<close>, a missing dictionary key and a call
    that does not fit a signature are values of the type \<open>error\<close>.
  \<^item> The table \<^verbatim>\<open>FLOWS\<close> of the module \<^verbatim>\<open>normalizing_flows\<close> is a parameter of every function
    that reads it.
  \<^item> Objects of TensorFlow Probability and Keras are records of the arguments they were
    built from; their constructors are taken to succeed.
\<close>

subsection \<open>Errors\<close>

text \<open>
  \<open>AssertionError\<close> carries the text of the asserted expression, which is how a
  traceback tells the failing statement; \<open>KeyError\<close> carries the missing key;
  \<open>TypeError\<close> carries the name of the offending argument.
\<close>

datatype error = KeyError string | AssertionError string | TypeError string

primrec map_err :: "('a \<Rightarrow> error + 'b) \<Rightarrow> 'a list \<Rightarrow> error + 'b list" where
  "map_err f [] = Inr []"
| "map_err f (x # xs) =
     (case f x of
        Inl e \<Rightarrow> Inl e
      | Inr y \<Rightarrow> (case map_err f xs of Inl e \<Rightarrow> Inl e | Inr ys \<Rightarrow> Inr (y # ys)))"

subsection \<open>Slicing the trailing axis\<close>

text \<open>
  \<^verbatim>\<open>t[..., a:b]\<close> and \<^verbatim>\<open>t[..., a:]\<close> with Python's rules: a negative bound counts from the
  end, and a bound outside the axis is clamped to it.
\<close>

definition norm_index :: "nat \<Rightarrow> int \<Rightarrow> nat" where
  "norm_index len i = (if i < 0 then nat (max 0 (int len + i)) else min len (nat i))"

definition slice :: "'a list \<Rightarrow> int \<Rightarrow> int \<Rightarrow> 'a list" where
  "slice t a b =
     (let lo = norm_index (length t) a; hi = norm_index (length t) b
      in take (hi - lo) (drop lo t))"

definition slice_from :: "'a list \<Rightarrow> int \<Rightarrow> 'a list" where
  "slice_from t a = drop (norm_index (length t) a) t"

subsection \<open>Bijectors, chains and the flow table\<close>

text \<open>
  A bijector is known by what TensorFlow Probability asks of it: the forward map, the
  inverse map and the logarithm of the inverse Jacobian determinant.
\<close>

record bijector =
  forward :: "real list \<Rightarrow> real list"
  inverse :: "real list \<Rightarrow> real list"
  inverse_log_det_jacobian :: "real list \<Rightarrow> real"

text \<open>
  \<^verbatim>\<open>tfp.bijectors.Chain([b1, ..., bn])\<close>: the forward map applies \<open>bn\<close> first and \<open>b1\<close>
  last, the inverse map applies the inverse of \<open>b1\<close> first; the empty chain is the
  identity.
\<close>

datatype chain = Chain "bijector list"

fun chain_forward :: "chain \<Rightarrow> real list \<Rightarrow> real list" where
  "chain_forward (Chain bs) x = foldr forward bs x"

fun chain_inverse :: "chain \<Rightarrow> real list \<Rightarrow> real list" where
  "chain_inverse (Chain bs) y = foldl (\<lambda>acc b. inverse b acc) y bs"

fun ildj_list :: "bijector list \<Rightarrow> real list \<Rightarrow> real" where
  "ildj_list [] y = 0"
| "ildj_list (b # bs) y = inverse_log_det_jacobian b y + ildj_list bs (inverse b y)"

fun chain_inverse_log_det_jacobian :: "chain \<Rightarrow> real list \<Rightarrow> real" where
  "chain_inverse_log_det_jacobian (Chain bs) y = ildj_list bs y"

text \<open>
  An entry of \<^verbatim>\<open>FLOWS\<close> is a class: \<^verbatim>\<open>FLOWS[name].get_param_size(n_dims)\<close> is its static
  method, \<^verbatim>\<open>FLOWS[name](t, n_dims)\<close> its constructor.
\<close>

record flow =
  get_param_size :: "int \<Rightarrow> int"
  new :: "real list \<Rightarrow> int \<Rightarrow> bijector"

type_synonym flows = "string \<rightharpoonup> flow"

definition FLOWS_getitem :: "flows \<Rightarrow> string \<Rightarrow> error + flow" where
  "FLOWS_getitem FLOWS flow_type =
     (case FLOWS flow_type of None \<Rightarrow> Inl (KeyError flow_type) | Some f \<Rightarrow> Inr f)"

subsection \<open>Distributions\<close>

text \<open>
  \<^verbatim>\<open>tfd.Normal(loc, scale)\<close> under \<^verbatim>\<open>tfd.Independent\<close>: \<open>scale\<close> is either one number
  broadcast to every component or one number per component.
\<close>

datatype scale = Scalar real | PerComponent "real list"

record independent_normal =
  normal_loc :: "real list"
  normal_scale :: scale

fun scale_at :: "scale \<Rightarrow> nat \<Rightarrow> real" where
  "scale_at (Scalar s) i = s"
| "scale_at (PerComponent ss) i = ss ! i"

text \<open>
  \<^verbatim>\<open>tfd.MultivariateNormalDiag(loc, scale_diag)\<close>: without \<open>scale_diag\<close> the scale is
  the identity, of the size of \<open>loc\<close>.
\<close>

record multivariate_normal_diag =
  loc :: "real list"
  scale_diag :: "real list option"

record transformed_distribution =
  distribution :: multivariate_normal_diag
  bijector :: chain

definition softplus :: "real \<Rightarrow> real" where
  "softplus x = ln (1 + exp x)"

definition expm1 :: "real \<Rightarrow> real" where
  "expm1 x = exp x - 1"

subsection \<open>MeanFieldLayer\<close>

record MeanFieldLayer =
  mf_n_dims :: int
  mf_uniform_scale :: bool

definition MeanFieldLayer_get_distribution_fn :: "int \<Rightarrow> bool \<Rightarrow> real list \<Rightarrow> independent_normal" where
  "MeanFieldLayer_get_distribution_fn n_dims uniform_scale t =
     (if uniform_scale then
        \<lparr>normal_loc = slice t 0 n_dims, normal_scale = Scalar 1\<rparr>
      else
        \<lparr>normal_loc = slice t 0 n_dims,
         normal_scale =
           PerComponent
             (map (\<lambda>raw. 1 / 100000 + softplus (ln (expm1 1) + raw))
                (slice t n_dims (2 * n_dims)))\<rparr>)"

definition MeanFieldLayer_get_total_param_size :: "MeanFieldLayer \<Rightarrow> int" where
  "MeanFieldLayer_get_total_param_size self =
     (if mf_uniform_scale self then mf_n_dims self else 2 * mf_n_dims self)"

subsection \<open>InverseNormalizingFlowLayer\<close>

record InverseNormalizingFlowLayer =
  flow_types :: "string list"
  trainable_base_dist :: bool
  n_dims :: int

definition InverseNormalizingFlowLayer_init ::
  "flows \<Rightarrow> string list \<Rightarrow> int \<Rightarrow> bool \<Rightarrow> error + InverseNormalizingFlowLayer" where
  "InverseNormalizingFlowLayer_init FLOWS fts n tb =
     (if list_all (\<lambda>flow_type. flow_type \<in> dom FLOWS) fts then
        Inr \<lparr>flow_types = fts, trainable_base_dist = tb, n_dims = n\<rparr>
      else Inl (AssertionError ''all([flow_type in FLOWS for flow_type in flow_types])''))"

definition get_total_param_size :: "flows \<Rightarrow> InverseNormalizingFlowLayer \<Rightarrow> error + int" where
  "get_total_param_size FLOWS self =
     (case map_err (\<lambda>flow_type.
              case FLOWS_getitem FLOWS flow_type of
                Inl e \<Rightarrow> Inl e
              | Inr f \<Rightarrow> Inr (get_param_size f (n_dims self)))
            (flow_types self) of
        Inl e \<Rightarrow> Inl e
      | Inr sizes \<Rightarrow>
          (let num_flow_params = sum_list sizes;
               base_dist_params = (if trainable_base_dist self then 2 * n_dims self else 0)
           in Inr (num_flow_params + base_dist_params)))"

definition get_bijector :: "flows \<Rightarrow> real list \<Rightarrow> string list \<Rightarrow> int \<Rightarrow> error + chain" where
  "get_bijector FLOWS t fts n =
     (let flow_types = rev fts in
      case map_err (\<lambda>flow_type.
              case FLOWS_getitem FLOWS flow_type of
                Inl e \<Rightarrow> Inl e
              | Inr f \<Rightarrow> Inr (get_param_size f n))
            flow_types of
        Inl e \<Rightarrow> Inl e
      | Inr param_sizes \<Rightarrow>
          if sum_list param_sizes \<noteq> int (length t) then
            Inl (AssertionError ''sum(param_sizes) == t.shape[-1]'')
          else
            (let split_beginnings =
                   map (\<lambda>i. sum_list (take i param_sizes)) [0..<length param_sizes]
             in case map_err (\<lambda>(begin, size, flow_type).
                       case FLOWS_getitem FLOWS flow_type of
                         Inl e \<Rightarrow> Inl e
                       | Inr f \<Rightarrow> Inr (new f (slice t begin (begin + size)) n))
                     (zip split_beginnings (zip param_sizes flow_types)) of
                  Inl e \<Rightarrow> Inl e
                | Inr bs \<Rightarrow> Inr (Chain bs)))"

definition get_base_dist :: "real list \<Rightarrow> int \<Rightarrow> bool \<Rightarrow> multivariate_normal_diag" where
  "get_base_dist t n trainable =
     (if trainable then
        \<lparr>loc = slice t 0 n,
         scale_diag = Some (map (\<lambda>raw. softplus (5 / 100 * raw)) (slice t n (2 * n)))\<rparr>
      else
        \<lparr>loc = map (\<lambda>_. 0) (slice t 0 1), scale_diag = None\<rparr>)"

text \<open>
  The closure \<^verbatim>\<open>make_flow_dist\<close> of the constructor: the base distribution is built
  first, then the chain from the entries after the base distribution's.
\<close>

definition make_flow_dist ::
  "flows \<Rightarrow> string list \<Rightarrow> int \<Rightarrow> bool \<Rightarrow> real list \<Rightarrow> error + transformed_distribution" where
  "make_flow_dist FLOWS fts n tb t =
     (let base = get_base_dist t n tb in
      case get_bijector FLOWS (if tb then slice_from t (2 * n) else t) fts n of
        Inl e \<Rightarrow> Inl e
      | Inr ch \<Rightarrow> Inr \<lparr>distribution = base, bijector = ch\<rparr>)"

text \<open>
  \<^verbatim>\<open>TransformedDistribution.log_prob\<close>, over the log-density \<open>lp\<close> of the base
  distribution.
\<close>

definition log_prob ::
  "(multivariate_normal_diag \<Rightarrow> real list \<Rightarrow> real) \<Rightarrow> transformed_distribution \<Rightarrow> real list \<Rightarrow> real" where
  "log_prob lp d y =
     lp (distribution d) (chain_inverse (bijector d) y)
       + chain_inverse_log_det_jacobian (bijector d) y"

subsection \<open>BayesianNFEstimator\<close>

text \<open>Python values, where the source depends on the dynamic type of an argument.\<close>

datatype pyval =
  PyNone | PyBool bool | PyInt int | PyFloat real | PyStr string
  | PyTuple "int list" | PyList "int list"

fun truthy :: "pyval \<Rightarrow> bool" where
  "truthy PyNone = False"
| "truthy (PyBool b) = b"
| "truthy (PyInt i) = (i \<noteq> 0)"
| "truthy (PyFloat x) = (x \<noteq> 0)"
| "truthy (PyStr s) = (s \<noteq> [])"
| "truthy (PyTuple xs) = (xs \<noteq> [])"
| "truthy (PyList xs) = (xs \<noteq> [])"

text \<open>
  A call \<^verbatim>\<open>MeanFieldLayer(n_dims, **kwargs)\<close> against the signature
  \<^verbatim>\<open>__init__(self, n_dims, uniform_scale=False, dtype=None)\<close>: with \<open>n_dims\<close> given by
  position, the only keywords the signature accepts are \<open>uniform_scale\<close> and \<open>dtype\<close>;
  any other keyword is a \<open>TypeError\<close>, raised before the body runs.
\<close>

definition MeanFieldLayer_new :: "int \<Rightarrow> (string \<times> pyval) list \<Rightarrow> error + MeanFieldLayer" where
  "MeanFieldLayer_new n kwargs =
     (case find (\<lambda>(k, v). k \<notin> {''uniform_scale'', ''dtype''}) kwargs of
        Some (k, v) \<Rightarrow> Inl (TypeError k)
      | None \<Rightarrow>
          Inr \<lparr>mf_n_dims = n,
               mf_uniform_scale =
                 (case map_of kwargs ''uniform_scale'' of None \<Rightarrow> False | Some v \<Rightarrow> truthy v)\<rparr>)"

record VariableLayer =
  shape :: int
  initializer :: string
  dtype :: pyval
  trainable :: bool

text \<open>The \<^verbatim>\<open>tf.keras.Sequential\<close> that a prior or posterior function returns.\<close>

record weight_distribution_model =
  variable_layer :: VariableLayer
  mean_field_layer :: MeanFieldLayer

definition prior_fn :: "bool \<Rightarrow> int \<Rightarrow> int \<Rightarrow> pyval \<Rightarrow> error + weight_distribution_model" where
  "prior_fn trainable_prior kernel_size bias_size dt =
     (let size = kernel_size + bias_size;
          v = \<lparr>shape = size, initializer = ''zeros'', dtype = dt, trainable = trainable_prior\<rparr>
      in case MeanFieldLayer_new size [(''scale'', PyFloat 1), (''dtype'', dt)] of
           Inl e \<Rightarrow> Inl e
         | Inr m \<Rightarrow> Inr \<lparr>variable_layer = v, mean_field_layer = m\<rparr>)"

definition posterior_fn :: "int \<Rightarrow> int \<Rightarrow> pyval \<Rightarrow> error + weight_distribution_model" where
  "posterior_fn kernel_size bias_size dt =
     (let size = kernel_size + bias_size;
          v = \<lparr>shape = 2 * size, initializer = ''normal'', dtype = dt, trainable = True\<rparr>
      in case MeanFieldLayer_new size [(''scale'', PyNone), (''dtype'', dt)] of
           Inl e \<Rightarrow> Inl e
         | Inr m \<Rightarrow> Inr \<lparr>variable_layer = v, mean_field_layer = m\<rparr>)"

text \<open>
  \<^verbatim>\<open>tf.keras.layers.GaussianNoise(stddev)\<close>, called without a \<open>training\<close> argument, adds
  zero-centred normal noise of that standard deviation when the learning phase is on and
  returns its input otherwise. The learning phase is the argument \<open>training\<close>; the
  standard normal variates of one call are the argument \<open>draw\<close>, one per entry.
\<close>

definition GaussianNoise_call :: "real \<Rightarrow> bool \<Rightarrow> (nat \<Rightarrow> real) \<Rightarrow> real list \<Rightarrow> real list" where
  "GaussianNoise_call stddev training draw inputs =
     (if training then map (\<lambda>i. inputs ! i + stddev * draw i) [0..<length inputs]
      else inputs)"

text \<open>
  The loss closure returned by \<^verbatim>\<open>_get_neg_log_likelihood(y_noise_std)\<close>, applied to the
  target \<open>y\<close> and to \<^verbatim>\<open>p_y.log_prob\<close>.
\<close>

definition get_neg_log_likelihood ::
  "real \<Rightarrow> bool \<Rightarrow> (nat \<Rightarrow> real) \<Rightarrow> real list \<Rightarrow> (real list \<Rightarrow> real) \<Rightarrow> real" where
  "get_neg_log_likelihood y_noise_std training draw y p_y_log_prob =
     (if y_noise_std \<noteq> 0 then - p_y_log_prob (GaussianNoise_call y_noise_std training draw y)
      else - p_y_log_prob y)"

text \<open>
  The layers of the network. A \<^verbatim>\<open>DenseVariational\<close> layer keeps its number of units, the
  flag its prior function was made with, the weight and the kind of the KL term, and its
  activation.
\<close>

datatype layer =
  GaussianNoise real
  | DenseVariational int bool real bool string
  | FlowLayer InverseNormalizingFlowLayer

definition get_dense_layers ::
  "pyval \<Rightarrow> int \<Rightarrow> bool \<Rightarrow> real \<Rightarrow> bool \<Rightarrow> real \<Rightarrow> string \<Rightarrow> error + layer list" where
  "get_dense_layers hidden_sizes output_size trainable_prior kl_weight_scale kl_use_exact
       x_noise_std activation =
     (case hidden_sizes of
        PyTuple sizes \<Rightarrow>
          if \<not> kl_weight_scale \<le> 1 then Inl (AssertionError ''kl_weight_scale <= 1.0'')
          else if \<not> x_noise_std \<ge> 0 then Inl (AssertionError ''x_noise_std >= 0.0'')
          else
            (let noise_reg = (if x_noise_std \<noteq> 0 then [GaussianNoise x_noise_std] else []);
                 hidden = map (\<lambda>size.
                            DenseVariational size trainable_prior kl_weight_scale kl_use_exact
                              activation) sizes;
                 output = [DenseVariational output_size trainable_prior kl_weight_scale
                             kl_use_exact ''linear'']
             in Inr (noise_reg @ hidden @ output))
      | _ \<Rightarrow> Inl (AssertionError ''type(hidden_sizes) == tuple''))"

record estimator_args =
  arg_n_dims :: int
  arg_kl_weight_scale :: real
  arg_kl_use_exact :: bool
  arg_flow_types :: "string list"
  arg_hidden_sizes :: pyval
  arg_trainable_base_dist :: bool
  arg_activation :: string
  arg_x_noise_std :: real
  arg_y_noise_std :: real
  arg_learning_rate :: real
  arg_trainable_prior :: bool

text \<open>The defaults of the constructor's signature.\<close>

definition default_args :: "int \<Rightarrow> estimator_args" where
  "default_args n =
     \<lparr>arg_n_dims = n, arg_kl_weight_scale = 1, arg_kl_use_exact = False,
      arg_flow_types = [''radial'', ''radial''], arg_hidden_sizes = PyTuple [10],
      arg_trainable_base_dist = True, arg_activation = ''tanh'', arg_x_noise_std = 0,
      arg_y_noise_std = 0, arg_learning_rate = 2 / 100, arg_trainable_prior = False\<rparr>"

text \<open>
  A constructed estimator: its layers, the learning rate of its optimizer and the
  \<open>y_noise_std\<close> its loss closure was made with.
\<close>

record BayesianNFEstimator =
  layers :: "layer list"
  learning_rate :: real
  loss_y_noise_std :: real

definition BayesianNFEstimator_init :: "flows \<Rightarrow> estimator_args \<Rightarrow> error + BayesianNFEstimator" where
  "BayesianNFEstimator_init FLOWS a =
     (case InverseNormalizingFlowLayer_init FLOWS (arg_flow_types a) (arg_n_dims a)
             (arg_trainable_base_dist a) of
        Inl e \<Rightarrow> Inl e
      | Inr dist_layer \<Rightarrow>
          (case get_total_param_size FLOWS dist_layer of
             Inl e \<Rightarrow> Inl e
           | Inr output_size \<Rightarrow>
               (case get_dense_layers (arg_hidden_sizes a) output_size (arg_trainable_prior a)
                       (arg_kl_weight_scale a) (arg_kl_use_exact a) (arg_x_noise_std a)
                       (arg_activation a) of
                  Inl e \<Rightarrow> Inl e
                | Inr dense_layers \<Rightarrow>
                    Inr \<lparr>layers = dense_layers @ [FlowLayer dist_layer],
                         learning_rate = arg_learning_rate a,
                         loss_y_noise_std = arg_y_noise_std a\<rparr>)))"

subsection \<open>A flow table to compute with\<close>

text \<open>
  Two flows whose forward maps do not commute, so that the order of a chain shows in its
  result: \<open>shift\<close> adds its parameters to the event, one per dimension; \<open>scaling\<close>
  multiplies the event by its single parameter.
\<close>

definition shift_flow :: flow where
  "shift_flow =
     \<lparr>get_param_size = (\<lambda>d. d),
      new = (\<lambda>t d. \<lparr>forward = (\<lambda>x. map2 (+) x t),
                     inverse = (\<lambda>y. map2 (-) y t),
                     inverse_log_det_jacobian = (\<lambda>y. 0)\<rparr>)\<rparr>"

definition scaling_flow :: flow where
  "scaling_flow =
     \<lparr>get_param_size = (\<lambda>d. 1),
      new = (\<lambda>t d. \<lparr>forward = (\<lambda>x. map (\<lambda>v. sum_list t * v) x),
                     inverse = (\<lambda>y. map (\<lambda>v. v / sum_list t) y),
                     inverse_log_det_jacobian =
                       (\<lambda>y. - real (length y) * ln \<bar>sum_list t\<bar>)\<rparr>)\<rparr>"

definition sample_FLOWS :: flows where
  "sample_FLOWS = [''shift'' \<mapsto> shift_flow, ''scaling'' \<mapsto> scaling_flow]"

section \<open>Properties\<close>

subsection \<open>Helper facts\<close>

lemma map_err_Inr:
  "(\<And>x. x \<in> set xs \<Longrightarrow> f x = Inr (g x)) \<Longrightarrow> map_err f xs = Inr (map g xs)"
  by (induction xs) auto

lemma FLOWS_getitem_dom:
  "k \<in> dom FLOWS \<Longrightarrow> FLOWS_getitem FLOWS k = Inr (the (FLOWS k))"
  by (auto simp: FLOWS_getitem_def)

lemma param_sizes_Inr:
  assumes "set fts \<subseteq> dom FLOWS"
  shows "map_err (\<lambda>flow_type.
            case FLOWS_getitem FLOWS flow_type of
              Inl e \<Rightarrow> Inl e
            | Inr f \<Rightarrow> Inr (get_param_size f n)) fts
         = Inr (map (\<lambda>flow_type. get_param_size (the (FLOWS flow_type)) n) fts)"
proof (rule map_err_Inr)
  fix x assume "x \<in> set fts"
  with assms have "x \<in> dom FLOWS" by blast
  then show "(case FLOWS_getitem FLOWS x of Inl e \<Rightarrow> Inl e | Inr f \<Rightarrow> Inr (get_param_size f n))
             = Inr (get_param_size (the (FLOWS x)) n)"
    by (simp add: FLOWS_getitem_dom)
qed

lemma init_registered:
  assumes "InverseNormalizingFlowLayer_init FLOWS fts n tb = Inr self"
  shows "set fts \<subseteq> dom FLOWS"
    and "self = \<lparr>flow_types = fts, trainable_base_dist = tb, n_dims = n\<rparr>"
  using assms
  by (auto simp: InverseNormalizingFlowLayer_init_def list_all_iff split: if_splits)

lemma sample_FLOWS_dom: "dom sample_FLOWS = {''shift'', ''scaling''}"
  by (auto simp: sample_FLOWS_def)

lemma sample_FLOWS_shift: "sample_FLOWS ''shift'' = Some shift_flow"
  by (simp add: sample_FLOWS_def)

lemma sample_FLOWS_scaling: "sample_FLOWS ''scaling'' = Some scaling_flow"
  by (simp add: sample_FLOWS_def)

subsection \<open>Parameter bookkeeping\<close>

text \<open>
  C2. For a layer built by the constructor, \<open>get_total_param_size\<close> returns the sum of
  the registered parameter sizes of its flows, plus \<open>2 * n_dims\<close> when the base
  distribution is trainable and plus nothing otherwise; with a fixed base distribution
  it is exactly the sum of the flows' parameter sizes.
\<close>

theorem get_total_param_size_sum:
  assumes "InverseNormalizingFlowLayer_init FLOWS fts n tb = Inr self"
  shows "get_total_param_size FLOWS self =
           Inr (sum_list (map (\<lambda>flow_type. get_param_size (the (FLOWS flow_type)) n) fts)
                + (if tb then 2 * n else 0))
       \<and> (\<not> tb \<longrightarrow> get_total_param_size FLOWS self =
           Inr (sum_list (map (\<lambda>flow_type. get_param_size (the (FLOWS flow_type)) n) fts)))"
proof -
  note reg = init_registered(1) [OF assms] and self = init_registered(2) [OF assms]
  have "get_total_param_size FLOWS self =
           Inr (sum_list (map (\<lambda>flow_type. get_param_size (the (FLOWS flow_type)) n) fts)
                + (if tb then 2 * n else 0))"
    by (simp add: get_total_param_size_def self param_sizes_Inr [OF reg])
  then show ?thesis by simp
qed

theorem get_total_param_size_sum_witness:
  "InverseNormalizingFlowLayer_init sample_FLOWS [''shift'', ''scaling''] 3 True
     = Inr \<lparr>flow_types = [''shift'', ''scaling''], trainable_base_dist = True, n_dims = 3\<rparr>
   \<and> get_total_param_size sample_FLOWS
       \<lparr>flow_types = [''shift'', ''scaling''], trainable_base_dist = True, n_dims = 3\<rparr> = Inr 10"
proof -
  have h: "InverseNormalizingFlowLayer_init sample_FLOWS [''shift'', ''scaling''] 3 True
     = Inr \<lparr>flow_types = [''shift'', ''scaling''], trainable_base_dist = True, n_dims = 3\<rparr>"
    by (simp add: InverseNormalizingFlowLayer_init_def sample_FLOWS_dom)
  from get_total_param_size_sum [OF h] h show ?thesis
    by (simp add: sample_FLOWS_shift sample_FLOWS_scaling shift_flow_def scaling_flow_def)
qed

subsection \<open>The chain of bijectors\<close>

lemma get_bijector_Inr:
  assumes reg: "set fts \<subseteq> dom FLOWS"
    and sz: "sum_list (map (\<lambda>ft. get_param_size (the (FLOWS ft)) n) fts) = int (length t)"
  shows "get_bijector FLOWS t fts n =
     Inr (Chain (map (\<lambda>i. new (the (FLOWS (rev fts ! i)))
                      (slice t (sum_list (take i (map (\<lambda>ft. get_param_size (the (FLOWS ft)) n) (rev fts))))
                               (sum_list (take i (map (\<lambda>ft. get_param_size (the (FLOWS ft)) n) (rev fts)))
                                 + get_param_size (the (FLOWS (rev fts ! i))) n)) n)
                 [0..<length fts]))"
proof -
  let ?size = "\<lambda>ft. get_param_size (the (FLOWS ft)) n"
  let ?sizes = "map ?size (rev fts)"
  from reg have reg': "set (rev fts) \<subseteq> dom FLOWS" by simp
  have sum: "sum_list ?sizes = int (length t)"
    using sz by (simp only: rev_map [symmetric] sum_list_rev)
  let ?g = "\<lambda>(begin, size, flow_type). new (the (FLOWS flow_type)) (slice t begin (begin + size)) n"
  let ?zs = "zip (map (\<lambda>i. sum_list (take i ?sizes)) [0..<length ?sizes]) (zip ?sizes (rev fts))"
  have second: "map_err (\<lambda>(begin, size, flow_type).
                       case FLOWS_getitem FLOWS flow_type of
                         Inl e \<Rightarrow> Inl e
                       | Inr f \<Rightarrow> Inr (new f (slice t begin (begin + size)) n)) ?zs
        = Inr (map ?g ?zs)"
  proof (rule map_err_Inr)
    fix z assume z: "z \<in> set ?zs"
    obtain b s ft where zeq: "z = (b, s, ft)" by (cases z) auto
    with z have "(s, ft) \<in> set (zip ?sizes (rev fts))" by (auto dest: set_zip_rightD)
    then have "ft \<in> set (rev fts)" by (auto dest: set_zip_rightD)
    with reg' have "ft \<in> dom FLOWS" by blast
    then show "(case z of (b', s', ft') \<Rightarrow>
                 (case FLOWS_getitem FLOWS ft' of
                         Inl e \<Rightarrow> Inl e
                       | Inr f \<Rightarrow> Inr (new f (slice t b' (b' + s')) n))) = Inr (?g z)"
      by (simp add: zeq FLOWS_getitem_dom)
  qed
  have "map ?g ?zs = map (\<lambda>i. new (the (FLOWS (rev fts ! i)))
                      (slice t (sum_list (take i ?sizes))
                               (sum_list (take i ?sizes) + ?size (rev fts ! i))) n)
                 [0..<length fts]"
    by (rule nth_equalityI) auto
  with second sum show ?thesis
    unfolding get_bijector_def Let_def param_sizes_Inr [OF reg'] by simp
qed

lemma take_rev_sizes:
  fixes f :: "'a \<Rightarrow> int"
  assumes "j < length fts"
  shows "sum_list (take (length fts - Suc j) (map f (rev fts))) = sum_list (map f (drop (Suc j) fts))"
proof -
  have "take (length fts - Suc j) (map f (rev fts)) = map f (rev (drop (Suc j) fts))"
    using assms by (simp add: take_map take_rev)
  then have "sum_list (take (length fts - Suc j) (map f (rev fts))) = sum_list (rev (map f (drop (Suc j) fts)))"
    by (simp only: rev_map)
  then show ?thesis by (simp only: sum_list_rev)
qed

text \<open>
  C1. When every flow type is registered and the registered sizes add up to the trailing
  dimension of \<open>t\<close>, \<open>get_bijector\<close> returns a chain with one bijector per flow type,
  listed in the reversed order of \<open>flow_types\<close>: the bijector at position \<open>i\<close> is built
  by the flow at position \<open>i\<close> of the reversed list, from the slice that starts at the
  sum of the sizes before it in the reversed list (the exclusive prefix sum) and is as
  long as its own size. Read in the order the user wrote, flow \<open>j\<close> is built from the slice
  that starts at the sum of the sizes of the flows after it, and the forward map of the
  chain applies the bijectors in the order the user wrote: the first listed flow is
  applied first to a sample of the base distribution.
\<close>

theorem get_bijector_reversed_chain:
  fixes FLOWS :: flows and n :: int
  defines "psize \<equiv> \<lambda>flow_type. get_param_size (the (FLOWS flow_type)) n"
  assumes reg: "set fts \<subseteq> dom FLOWS"
    and sz: "sum_list (map psize fts) = int (length t)"
  shows "\<exists>bs. get_bijector FLOWS t fts n = Inr (Chain bs)
      \<and> length bs = length fts
      \<and> (\<forall>i<length fts. bs ! i =
            new (the (FLOWS (rev fts ! i)))
              (slice t (sum_list (take i (map psize (rev fts))))
                       (sum_list (take i (map psize (rev fts))) + psize (rev fts ! i))) n)
      \<and> (\<forall>j<length fts. rev bs ! j =
            new (the (FLOWS (fts ! j)))
              (slice t (sum_list (map psize (drop (Suc j) fts)))
                       (sum_list (map psize (drop (Suc j) fts)) + psize (fts ! j))) n)
      \<and> (\<forall>x. chain_forward (Chain bs) x = foldl (\<lambda>acc b. forward b acc) x (rev bs))"
proof -
  let ?bs = "map (\<lambda>i. new (the (FLOWS (rev fts ! i)))
                      (slice t (sum_list (take i (map psize (rev fts))))
                               (sum_list (take i (map psize (rev fts))) + psize (rev fts ! i))) n)
                 [0..<length fts]"
  have run: "get_bijector FLOWS t fts n = Inr (Chain ?bs)"
    using get_bijector_Inr [OF reg, of n t] sz by (simp add: psize_def)
  have len: "length ?bs = length fts" by simp
  have rev_order: "\<forall>i<length fts. ?bs ! i =
            new (the (FLOWS (rev fts ! i)))
              (slice t (sum_list (take i (map psize (rev fts))))
                       (sum_list (take i (map psize (rev fts))) + psize (rev fts ! i))) n"
    by simp
  have user_order: "\<forall>j<length fts. rev ?bs ! j =
            new (the (FLOWS (fts ! j)))
              (slice t (sum_list (map psize (drop (Suc j) fts)))
                       (sum_list (map psize (drop (Suc j) fts)) + psize (fts ! j))) n"
  proof (intro allI impI)
    fix j assume j: "j < length fts"
    then have k: "length fts - Suc j < length fts" by simp
    have "rev ?bs ! j = ?bs ! (length fts - Suc j)"
      using j by (simp add: rev_nth del: nth_map)
    also have "\<dots> = new (the (FLOWS (rev fts ! (length fts - Suc j))))
              (slice t (sum_list (take (length fts - Suc j) (map psize (rev fts))))
                       (sum_list (take (length fts - Suc j) (map psize (rev fts)))
                          + psize (rev fts ! (length fts - Suc j)))) n"
      using k by simp
    also have "rev fts ! (length fts - Suc j) = fts ! j"
      using j by (simp add: rev_nth)
    finally show "rev ?bs ! j =
            new (the (FLOWS (fts ! j)))
              (slice t (sum_list (map psize (drop (Suc j) fts)))
                       (sum_list (map psize (drop (Suc j) fts)) + psize (fts ! j))) n"
      by (simp only: take_rev_sizes [OF j])
  qed
  have fwd: "\<forall>x. chain_forward (Chain ?bs) x = foldl (\<lambda>acc b. forward b acc) x (rev ?bs)"
    by (simp only: chain_forward.simps foldr_conv_foldl) simp
  from run len rev_order user_order fwd show ?thesis by blast
qed

theorem get_bijector_reversed_chain_witness:
  "set [''shift'', ''scaling''] \<subseteq> dom sample_FLOWS
   \<and> sum_list (map (\<lambda>flow_type. get_param_size (the (sample_FLOWS flow_type)) 2)
        [''shift'', ''scaling'']) = int (length [3, 10, 20 :: real])
   \<and> (\<exists>bs. get_bijector sample_FLOWS [3, 10, 20] [''shift'', ''scaling''] 2 = Inr (Chain bs)
        \<and> chain_forward (Chain bs) [1, 1] = [33, 63])"
proof -
  have h1: "set [''shift'', ''scaling''] \<subseteq> dom sample_FLOWS"
    by (simp add: sample_FLOWS_dom)
  have h2: "sum_list (map (\<lambda>flow_type. get_param_size (the (sample_FLOWS flow_type)) 2)
        [''shift'', ''scaling'']) = int (length [3, 10, 20 :: real])"
    by (simp add: sample_FLOWS_shift sample_FLOWS_scaling shift_flow_def scaling_flow_def)
  from get_bijector_reversed_chain [OF h1 h2]
  obtain bs where run: "get_bijector sample_FLOWS [3, 10, 20] [''shift'', ''scaling''] 2 = Inr (Chain bs)"
    and len: "length bs = length [''shift'', ''scaling'']"
    and user: "\<forall>j<length [''shift'', ''scaling''].
        rev bs ! j =
          new (the (sample_FLOWS ([''shift'', ''scaling''] ! j)))
            (slice [3, 10, 20]
               (sum_list (map (\<lambda>flow_type. get_param_size (the (sample_FLOWS flow_type)) 2)
                  (drop (Suc j) [''shift'', ''scaling''])))
               (sum_list (map (\<lambda>flow_type. get_param_size (the (sample_FLOWS flow_type)) 2)
                  (drop (Suc j) [''shift'', ''scaling'']))
                + get_param_size (the (sample_FLOWS ([''shift'', ''scaling''] ! j))) 2)) 2"
    and fwd: "\<forall>x. chain_forward (Chain bs) x = foldl (\<lambda>acc b. forward b acc) x (rev bs)"
    by blast
  from user [rule_format, of 0] have r0: "rev bs ! 0 = new shift_flow [10, 20] 2"
    by (simp add: sample_FLOWS_shift sample_FLOWS_scaling shift_flow_def scaling_flow_def
        slice_def norm_index_def)
  from user [rule_format, of 1] have r1: "rev bs ! 1 = new scaling_flow [3] 2"
    by (simp add: sample_FLOWS_shift sample_FLOWS_scaling shift_flow_def scaling_flow_def
        slice_def norm_index_def)
  from len have "length (rev bs) = Suc (Suc 0)" by simp
  then have "rev bs = [rev bs ! 0, rev bs ! 1]"
    by (auto simp: length_Suc_conv)
  with r0 r1 have "rev bs = [new shift_flow [10, 20] 2, new scaling_flow [3] 2]" by simp
  with fwd have "chain_forward (Chain bs) [1, 1] = [33, 63]"
    by (simp add: shift_flow_def scaling_flow_def)
  with h1 h2 run show ?thesis by blast
qed


subsection \<open>A parameter tensor of the wrong size\<close>

lemma get_bijector_assert:
  assumes reg: "set fts \<subseteq> dom FLOWS"
    and bad: "sum_list (map (\<lambda>flow_type. get_param_size (the (FLOWS flow_type)) n) fts)
                \<noteq> int (length t)"
  shows "get_bijector FLOWS t fts n = Inl (AssertionError ''sum(param_sizes) == t.shape[-1]'')"
proof -
  from reg have reg': "set (rev fts) \<subseteq> dom FLOWS" by simp
  have "sum_list (map (\<lambda>flow_type. get_param_size (the (FLOWS flow_type)) n) (rev fts))
          = sum_list (map (\<lambda>flow_type. get_param_size (the (FLOWS flow_type)) n) fts)"
    by (simp only: rev_map [symmetric] sum_list_rev)
  with bad show ?thesis
    unfolding get_bijector_def Let_def param_sizes_Inr [OF reg'] by simp
qed

text \<open>
  C3. The chain is built from \<open>t\<close> itself, or from the entries of \<open>t\<close> after the first
  \<open>2 * n_dims\<close> when the base distribution is trainable. When the flow types are
  registered (the constructor of the layer asserts it) and the trailing dimension of
  that tensor differs from the sum of the registered sizes, \<open>get_bijector\<close> stops at its
  assertion on the sizes: the result is that \<open>AssertionError\<close>, the error the
  specification calls \<open>ParamSizeMismatchError\<close>, and no chain, hence no slice and no
  bijector, is produced.
\<close>

theorem get_bijector_size_mismatch:
  assumes reg: "set fts \<subseteq> dom FLOWS"
    and bad: "sum_list (map (\<lambda>flow_type. get_param_size (the (FLOWS flow_type)) n) fts)
                \<noteq> int (length (if tb then slice_from t (2 * n) else t))"
  shows "get_bijector FLOWS (if tb then slice_from t (2 * n) else t) fts n
           = Inl (AssertionError ''sum(param_sizes) == t.shape[-1]'')"
  using reg bad by (rule get_bijector_assert)

theorem get_bijector_size_mismatch_witness:
  "set [''shift'', ''scaling''] \<subseteq> dom sample_FLOWS
   \<and> sum_list (map (\<lambda>flow_type. get_param_size (the (sample_FLOWS flow_type)) 2)
         [''shift'', ''scaling''])
       \<noteq> int (length (if True then slice_from [1, 2, 3, 4, 5, 6 :: real] (2 * 2) else [1, 2, 3, 4, 5, 6]))
   \<and> get_bijector sample_FLOWS (slice_from [1, 2, 3, 4, 5, 6] 4) [''shift'', ''scaling''] 2
       = Inl (AssertionError ''sum(param_sizes) == t.shape[-1]'')"
proof -
  have h1: "set [''shift'', ''scaling''] \<subseteq> dom sample_FLOWS"
    by (simp add: sample_FLOWS_dom)
  have h2: "sum_list (map (\<lambda>flow_type. get_param_size (the (sample_FLOWS flow_type)) 2)
         [''shift'', ''scaling''])
       \<noteq> int (length (if True then slice_from [1, 2, 3, 4, 5, 6 :: real] (2 * 2) else [1, 2, 3, 4, 5, 6]))"
    by (simp add: sample_FLOWS_shift sample_FLOWS_scaling shift_flow_def scaling_flow_def
        slice_from_def norm_index_def)
  from get_bijector_size_mismatch [OF h1 h2] h1 h2 show ?thesis by simp
qed

text \<open>
  The same at the level of the layer: with the constructors of the base distribution
  taken to succeed, the closure \<open>make_flow_dist\<close> of a constructed layer ends in that
  error.
\<close>

lemma make_flow_dist_size_mismatch:
  assumes "InverseNormalizingFlowLayer_init FLOWS fts n tb = Inr self"
    and "sum_list (map (\<lambda>flow_type. get_param_size (the (FLOWS flow_type)) n) fts)
                \<noteq> int (length (if tb then slice_from t (2 * n) else t))"
  shows "make_flow_dist FLOWS fts n tb t
           = Inl (AssertionError ''sum(param_sizes) == t.shape[-1]'')"
  using get_bijector_assert [OF init_registered(1) [OF assms(1)] assms(2)]
  by (simp add: make_flow_dist_def)

subsection \<open>The base distribution\<close>

lemma slice_nonneg:
  assumes "0 \<le> a" and "a \<le> b"
  shows "slice t a b = take (nat b - nat a) (drop (nat a) t)"
proof (cases "nat b \<le> length t")
  case True
  with assms show ?thesis by (simp add: slice_def norm_index_def Let_def min_def)
next
  case False
  with assms show ?thesis by (auto simp add: slice_def norm_index_def Let_def min_def)
qed

lemma slice_from_nonneg: "0 \<le> a \<Longrightarrow> slice_from t a = drop (nat a) t"
  by (simp add: slice_from_def norm_index_def min_def)

lemma get_bijector_empty: "get_bijector FLOWS [] [] n = Inr (Chain [])"
  by (simp add: get_bijector_def)

text \<open>
  C4, at an input where the code departs from it. With the fixed base distribution the
  location is \<^verbatim>\<open>zeros_like(t[..., 0:1])\<close>: it has one component whatever \<open>n_dims\<close> is, so
  for \<open>n_dims = 2\<close> the base distribution is a standard normal of one component, not of
  two. (The trainable branch slices \<^verbatim>\<open>0:n_dims\<close>.)
\<close>

theorem get_base_dist_fixed_one_component:
  "get_base_dist [1, 2, 3, 4] 2 False = \<lparr>loc = [0], scale_diag = None\<rparr>"
  by (simp add: get_base_dist_def slice_def norm_index_def)

text \<open>In general the fixed base distribution has at most one component.\<close>

lemma get_base_dist_fixed_length:
  "length (loc (get_base_dist t n False)) = min 1 (length t)"
  by (simp add: get_base_dist_def slice_def norm_index_def)

text \<open>
  With a trainable base distribution and a tensor that starts with \<open>2 * n_dims\<close> entries
  \<open>base\<close>, the location is the first half of \<open>base\<close>, the diagonal scale comes from its
  second half, and the chain is built from the entries \<open>rest\<close> after \<open>base\<close>.
\<close>

lemma make_flow_dist_trainable_split:
  assumes len: "int (length base) = 2 * n"
  shows "make_flow_dist FLOWS fts n True (base @ rest) =
           (case get_bijector FLOWS rest fts n of
              Inl e \<Rightarrow> Inl e
            | Inr ch \<Rightarrow>
                Inr \<lparr>distribution =
                       \<lparr>loc = take (nat n) base,
                        scale_diag =
                          Some (map (\<lambda>raw. softplus (5 / 100 * raw)) (drop (nat n) base))\<rparr>,
                     bijector = ch\<rparr>)"
proof -
  from len have n: "0 \<le> n" by linarith
  from len n have half: "nat n \<le> length base" and whole: "nat (2 * n) = length base"
    by linarith+
  from n half have l: "slice (base @ rest) 0 n = take (nat n) base"
    by (simp add: slice_nonneg)
  from len n have "nat (2 * n) - nat n = length base - nat n" by linarith
  with n half have s: "slice (base @ rest) n (2 * n) = drop (nat n) base"
    by (simp add: slice_nonneg)
  from n whole have r: "slice_from (base @ rest) (2 * n) = rest"
    by (simp add: slice_from_nonneg)
  show ?thesis
    by (simp add: make_flow_dist_def get_base_dist_def l s r split: sum.split)
qed

subsection \<open>No flows\<close>

text \<open>
  C9. For a parameter tensor of length \<open>2 * n_dims\<close>, the layer with no flow types and a
  trainable base distribution returns the transformed distribution of the trainable base
  Gaussian (location the first \<open>n_dims\<close> entries, diagonal scale from the other
  \<open>n_dims\<close>) under the empty chain. The empty chain is the identity in both directions
  and its log-density is the log-density of the base distribution, whatever that
  log-density is: the output is equal in distribution to the base Gaussian.
\<close>

theorem empty_flow_list_is_base:
  assumes len: "int (length t) = 2 * n"
  shows "\<exists>d. make_flow_dist FLOWS [] n True t = Inr d
      \<and> distribution d = get_base_dist t n True
      \<and> loc (distribution d) = take (nat n) t
      \<and> scale_diag (distribution d) = Some (map (\<lambda>raw. softplus (5 / 100 * raw)) (drop (nat n) t))
      \<and> bijector d = Chain []
      \<and> (\<forall>x. chain_forward (bijector d) x = x)
      \<and> (\<forall>y. chain_inverse (bijector d) y = y)
      \<and> (\<forall>lp y. log_prob lp d y = lp (get_base_dist t n True) y)"
proof -
  from len have n: "0 \<le> n" by linarith
  let ?d = "\<lparr>distribution = get_base_dist t n True, bijector = Chain []\<rparr>"
  from len n have "slice_from t (2 * n) = []"
    by (simp add: slice_from_nonneg)
  then have run: "make_flow_dist FLOWS [] n True t = Inr ?d"
    by (simp add: make_flow_dist_def get_bijector_empty)
  from n have l: "loc (get_base_dist t n True) = take (nat n) t"
    by (simp add: get_base_dist_def slice_nonneg)
  from len n have "take (nat (2 * n) - nat n) (drop (nat n) t) = drop (nat n) t"
    by (simp add: nat_mult_distrib)
  with n have s: "scale_diag (get_base_dist t n True)
      = Some (map (\<lambda>raw. softplus (5 / 100 * raw)) (drop (nat n) t))"
    by (simp add: get_base_dist_def slice_nonneg)
  have "\<forall>lp y. log_prob lp ?d y = lp (get_base_dist t n True) y"
    by (simp add: log_prob_def)
  with run l s show ?thesis by simp
qed

theorem empty_flow_list_is_base_witness:
  "int (length [1, 2, 0, -3 :: real]) = 2 * 2
   \<and> (\<exists>d. make_flow_dist sample_FLOWS [] 2 True [1, 2, 0, -3] = Inr d
        \<and> loc (distribution d) = [1, 2]
        \<and> chain_forward (bijector d) [7, 8] = [7, 8])"
proof -
  have h: "int (length [1, 2, 0, -3 :: real]) = 2 * 2" by simp
  from empty_flow_list_is_base [OF h, of sample_FLOWS]
  obtain d where "make_flow_dist sample_FLOWS [] 2 True [1, 2, 0, -3] = Inr d"
    and "loc (distribution d) = take (nat 2) [1, 2, 0, -3]"
    and "\<forall>x. chain_forward (bijector d) x = x"
    by blast
  then have "make_flow_dist sample_FLOWS [] 2 True [1, 2, 0, -3] = Inr d
        \<and> loc (distribution d) = [1, 2]
        \<and> chain_forward (bijector d) [7, 8] = [7, 8]"
    by simp
  with h show ?thesis by blast
qed


subsection \<open>Softplus and the scale of the trainable base distribution\<close>









subsection \<open>The mean-field distribution\<close>

text \<open>With the raw entry \<open>0\<close> the scale of the mean-field distribution is \<open>1 + 1e-5\<close>.\<close>

lemma mean_field_scale_raw_zero: "1 / 100000 + softplus (ln (expm1 1) + 0) = 1 + 1 / 100000"
proof -
  have "0 < exp (1::real) - 1" by simp
  then have "exp (ln (exp (1::real) - 1)) = exp 1 - 1" by (rule exp_ln)
  then show ?thesis by (simp add: softplus_def expm1_def)
qed

text \<open>
  C6. Let the parameter tensor begin with \<open>n_dims\<close> entries \<open>ms\<close>. With a uniform scale
  the distribution has the locations \<open>ms\<close> and the scale \<open>1\<close> in every component,
  whatever entries \<open>rest\<close> follow, and the layer asks for \<open>n_dims\<close> parameters. Without
  it, when \<open>n_dims\<close> entries \<open>raws\<close> come next, the locations are \<open>ms\<close>, the scale of a
  component is \<open>1e-5 + softplus (ln (expm1 1) + raw)\<close> of its raw entry, and the layer
  asks for \<open>2 * n_dims\<close> parameters.
\<close>

theorem mean_field_distribution:
  assumes n: "0 \<le> n" and ms: "length ms = nat n"
  shows "MeanFieldLayer_get_distribution_fn n True (ms @ rest)
           = \<lparr>normal_loc = ms, normal_scale = Scalar 1\<rparr>
       \<and> (\<forall>i<nat n. scale_at (normal_scale (MeanFieldLayer_get_distribution_fn n True (ms @ rest))) i = 1)
       \<and> MeanFieldLayer_get_total_param_size \<lparr>mf_n_dims = n, mf_uniform_scale = True\<rparr> = n
       \<and> (length raws = nat n \<longrightarrow>
            MeanFieldLayer_get_distribution_fn n False (ms @ raws @ rest)
              = \<lparr>normal_loc = ms,
                 normal_scale = PerComponent
                   (map (\<lambda>raw. 1 / 100000 + softplus (ln (expm1 1) + raw)) raws)\<rparr>)
       \<and> MeanFieldLayer_get_total_param_size \<lparr>mf_n_dims = n, mf_uniform_scale = False\<rparr> = 2 * n"
proof -
  from n ms have u: "MeanFieldLayer_get_distribution_fn n True (ms @ rest)
           = \<lparr>normal_loc = ms, normal_scale = Scalar 1\<rparr>"
    by (simp add: MeanFieldLayer_get_distribution_fn_def slice_nonneg)
  have nu: "MeanFieldLayer_get_distribution_fn n False (ms @ raws @ rest)
              = \<lparr>normal_loc = ms,
                 normal_scale = PerComponent
                   (map (\<lambda>raw. 1 / 100000 + softplus (ln (expm1 1) + raw)) raws)\<rparr>"
    if raws: "length raws = nat n"
  proof -
    from n have "nat (2 * n) - nat n = nat n" by (simp add: nat_mult_distrib)
    with n ms raws show ?thesis
      by (simp add: MeanFieldLayer_get_distribution_fn_def slice_nonneg)
  qed
  from u nu show ?thesis
    by (simp add: MeanFieldLayer_get_total_param_size_def)
qed

theorem mean_field_distribution_witness:
  "(0::int) \<le> 2 \<and> length [1, 2 :: real] = nat 2 \<and> length [0, 5 :: real] = nat 2
   \<and> MeanFieldLayer_get_distribution_fn 2 True ([1, 2] @ [0, 5, 9])
        = \<lparr>normal_loc = [1, 2], normal_scale = Scalar 1\<rparr>
   \<and> MeanFieldLayer_get_distribution_fn 2 False ([1, 2] @ [0, 5] @ [9])
        = \<lparr>normal_loc = [1, 2],
           normal_scale = PerComponent
             [1 / 100000 + softplus (ln (expm1 1) + 0), 1 / 100000 + softplus (ln (expm1 1) + 5)]\<rparr>"
proof -
  have h1: "(0::int) \<le> 2" by simp
  have h2: "length [1, 2 :: real] = nat 2" by simp
  have h3: "length [0, 5 :: real] = nat 2" by simp
  from mean_field_distribution [OF h1 h2, of "[0, 5, 9]" "[0, 5]"]
  have a: "MeanFieldLayer_get_distribution_fn 2 True ([1, 2] @ [0, 5, 9])
        = \<lparr>normal_loc = [1, 2], normal_scale = Scalar 1\<rparr>" by blast
  from mean_field_distribution [OF h1 h2, of "[9]" "[0, 5]"] h3
  have b: "MeanFieldLayer_get_distribution_fn 2 False ([1, 2] @ [0, 5] @ [9])
        = \<lparr>normal_loc = [1, 2],
           normal_scale = PerComponent
             (map (\<lambda>raw. 1 / 100000 + softplus (ln (expm1 1) + raw)) [0, 5])\<rparr>" by blast
  from a b h1 h2 h3 show ?thesis by simp
qed


subsection \<open>Prior and posterior of the Bayesian estimator\<close>

lemma MeanFieldLayer_new_scale:
  "MeanFieldLayer_new n [(''scale'', v), (''dtype'', dt)] = Inl (TypeError ''scale'')"
  by (simp add: MeanFieldLayer_new_def)

text \<open>With the keyword the signature has, the same call builds the layer.\<close>

lemma MeanFieldLayer_new_uniform_scale:
  "MeanFieldLayer_new n [(''uniform_scale'', PyBool b), (''dtype'', dt)]
     = Inr \<lparr>mf_n_dims = n, mf_uniform_scale = b\<rparr>"
  by (simp add: MeanFieldLayer_new_def)

text \<open>
  C5, at every input. Both factories call \<^verbatim>\<open>MeanFieldLayer(size, scale=..., dtype=dtype)\<close>,
  and the constructor of \<open>MeanFieldLayer\<close> has no parameter \<open>scale\<close> (its parameters are
  \<open>n_dims\<close>, \<open>uniform_scale\<close> and \<open>dtype\<close>). So for every kernel and bias size the prior
  function and the posterior function raise \<open>TypeError\<close> on that keyword and return no
  layer at all.
\<close>

theorem prior_posterior_fn_type_error:
  "prior_fn trainable_prior kernel_size bias_size dt = Inl (TypeError ''scale'')
   \<and> posterior_fn kernel_size bias_size dt = Inl (TypeError ''scale'')"
  by (simp add: prior_fn_def posterior_fn_def MeanFieldLayer_new_scale)

subsection \<open>Precondition checks of the Bayesian estimator\<close>

text \<open>
  A \<open>kl_weight_scale\<close> above \<open>1\<close>, a negative \<open>x_noise_std\<close> and a \<open>hidden_sizes\<close> that
  is not a tuple are rejected by the assertions of \<open>get_dense_layers\<close>, hence by the
  constructor.
\<close>

lemma get_dense_layers_rejects:
  assumes "1 < kl \<or> x < 0 \<or> (\<forall>sizes. hs \<noteq> PyTuple sizes)"
  shows "\<exists>e. get_dense_layers hs out tp kl ex x act = Inl (AssertionError e)"
  using assms by (cases hs) (auto simp: get_dense_layers_def)

lemma BayesianNFEstimator_init_rejects:
  assumes "1 < arg_kl_weight_scale a \<or> arg_x_noise_std a < 0
           \<or> (\<forall>sizes. arg_hidden_sizes a \<noteq> PyTuple sizes)"
  shows "\<exists>e. BayesianNFEstimator_init FLOWS a = Inl e"
proof -
  from get_dense_layers_rejects [OF assms]
  have "\<And>out. \<exists>e. get_dense_layers (arg_hidden_sizes a) out (arg_trainable_prior a)
             (arg_kl_weight_scale a) (arg_kl_use_exact a) (arg_x_noise_std a) (arg_activation a)
           = Inl (AssertionError e)" by blast
  then have dense: "\<exists>e. get_dense_layers (arg_hidden_sizes a) out (arg_trainable_prior a)
             (arg_kl_weight_scale a) (arg_kl_use_exact a) (arg_x_noise_std a) (arg_activation a)
           = Inl e" for out by blast
  show ?thesis
  proof (cases "InverseNormalizingFlowLayer_init FLOWS (arg_flow_types a) (arg_n_dims a)
             (arg_trainable_base_dist a)")
    case (Inl e)
    then show ?thesis by (simp add: BayesianNFEstimator_init_def)
  next
    case layer: (Inr dist_layer)
    show ?thesis
    proof (cases "get_total_param_size FLOWS dist_layer")
      case (Inl e)
      with layer show ?thesis by (simp add: BayesianNFEstimator_init_def)
    next
      case (Inr output_size)
      from dense [of output_size] obtain e where
        "get_dense_layers (arg_hidden_sizes a) output_size (arg_trainable_prior a)
             (arg_kl_weight_scale a) (arg_kl_use_exact a) (arg_x_noise_std a) (arg_activation a)
           = Inl e" by blast
      with layer Inr show ?thesis by (simp add: BayesianNFEstimator_init_def)
    qed
  qed
qed

text \<open>
  C8, at an input where the code departs from it. No statement of the constructor looks
  at the sign of \<open>y_noise_std\<close>: with \<open>n_dims = 1\<close>, no flows, \<open>y_noise_std = -1\<close> and
  the defaults for the rest, the constructor returns an estimator whose loss was made with
  the standard deviation \<open>-1\<close>.
\<close>

theorem negative_y_noise_std_accepted:
  "BayesianNFEstimator_init FLOWS ((default_args 1)\<lparr>arg_flow_types := [], arg_y_noise_std := - 1\<rparr>)
     = Inr \<lparr>layers = [DenseVariational 10 False 1 False ''tanh'',
                     DenseVariational 2 False 1 False ''linear'',
                     FlowLayer \<lparr>flow_types = [], trainable_base_dist = True, n_dims = 1\<rparr>],
            learning_rate = 2 / 100,
            loss_y_noise_std = - 1\<rparr>"
  by (simp add: BayesianNFEstimator_init_def default_args_def InverseNormalizingFlowLayer_init_def
      get_total_param_size_def get_dense_layers_def)

subsection \<open>The loss and the output noise\<close>

text \<open>
  C7. Outside training the loss is the negated log-probability of the target itself,
  whatever the noise variates are: two evaluations on the same target and distribution
  are equal. In training with a nonzero \<open>y_noise_std\<close> the loss is the negated
  log-probability of the target moved by \<open>y_noise_std\<close> times the variates; two draws
  move the target to the same point only when they agree on every entry, and every
  point of the target's shape is reached by some draw, so that the loss takes the value
  of the log-probability at any such point.
\<close>

theorem neg_log_likelihood_noise:
  "get_neg_log_likelihood s False draw1 y lp = get_neg_log_likelihood s False draw2 y lp
   \<and> get_neg_log_likelihood s False draw1 y lp = - lp y
   \<and> (s \<noteq> 0 \<longrightarrow>
        get_neg_log_likelihood s True draw1 y lp
          = - lp (map (\<lambda>i. y ! i + s * draw1 i) [0..<length y]))
   \<and> (s \<noteq> 0 \<longrightarrow>
        (GaussianNoise_call s True draw1 y = GaussianNoise_call s True draw2 y
           \<longleftrightarrow> (\<forall>i<length y. draw1 i = draw2 i)))
   \<and> (s \<noteq> 0 \<longrightarrow>
        (\<forall>z. length z = length y \<longrightarrow>
           (\<exists>draw. get_neg_log_likelihood s True draw y lp = - lp z)))"
proof -
  have off: "get_neg_log_likelihood s False d y lp = - lp y" for d
    by (simp add: get_neg_log_likelihood_def GaussianNoise_call_def)
  have on: "get_neg_log_likelihood s True d y lp
          = - lp (map (\<lambda>i. y ! i + s * d i) [0..<length y])" if "s \<noteq> 0" for d
    using that by (simp add: get_neg_log_likelihood_def GaussianNoise_call_def)
  have inj: "GaussianNoise_call s True draw1 y = GaussianNoise_call s True draw2 y
           \<longleftrightarrow> (\<forall>i<length y. draw1 i = draw2 i)" if "s \<noteq> 0"
    using that by (auto simp: GaussianNoise_call_def)
  have sur: "\<exists>draw. get_neg_log_likelihood s True draw y lp = - lp z"
    if s: "s \<noteq> 0" and z: "length z = length y" for z
  proof -
    have "map (\<lambda>i. y ! i + s * ((z ! i - y ! i) / s)) [0..<length y] = z"
      using s z by (intro nth_equalityI) simp_all
    with on [OF s, of "\<lambda>i. (z ! i - y ! i) / s"] show ?thesis by auto
  qed
  from off on inj sur show ?thesis by auto
qed

theorem neg_log_likelihood_noise_witness:
  "(1::real) \<noteq> 0 \<and> length [3 :: real] = length [0 :: real]
   \<and> get_neg_log_likelihood 1 False (\<lambda>i. 0) [0] (\<lambda>v. - (sum_list v)\<^sup>2 / 2)
       = get_neg_log_likelihood 1 False (\<lambda>i. 3) [0] (\<lambda>v. - (sum_list v)\<^sup>2 / 2)
   \<and> get_neg_log_likelihood 1 True (\<lambda>i. 0) [0] (\<lambda>v. - (sum_list v)\<^sup>2 / 2) = 0
   \<and> get_neg_log_likelihood 1 True (\<lambda>i. 3) [0] (\<lambda>v. - (sum_list v)\<^sup>2 / 2) = 9 / 2
   \<and> (\<exists>draw. get_neg_log_likelihood 1 True draw [0] (\<lambda>v. - (sum_list v)\<^sup>2 / 2)
               = - (- (sum_list [3])\<^sup>2 / 2))"
proof -
  have h: "(1::real) \<noteq> 0" by simp
  have l: "length [3 :: real] = length [0 :: real]" by simp
  note t0 = neg_log_likelihood_noise [of 1 "\<lambda>i. 0" "[0]" "\<lambda>v. - (sum_list v)\<^sup>2 / 2" "\<lambda>i. 3"]
  note t3 = neg_log_likelihood_noise [of 1 "\<lambda>i. 3" "[0]" "\<lambda>v. - (sum_list v)\<^sup>2 / 2" "\<lambda>i. 0"]
  from t0 have a: "get_neg_log_likelihood 1 False (\<lambda>i. 0) [0] (\<lambda>v. - (sum_list v)\<^sup>2 / 2)
       = get_neg_log_likelihood 1 False (\<lambda>i. 3) [0] (\<lambda>v. - (sum_list v)\<^sup>2 / 2)" by blast
  from t0 h have b: "get_neg_log_likelihood 1 True (\<lambda>i. 0) [0] (\<lambda>v. - (sum_list v)\<^sup>2 / 2) = 0"
    by simp
  from t3 h have c: "get_neg_log_likelihood 1 True (\<lambda>i. 3) [0] (\<lambda>v. - (sum_list v)\<^sup>2 / 2) = 9 / 2"
    by simp
  from t0 h l have d: "\<exists>draw. get_neg_log_likelihood 1 True draw [0] (\<lambda>v. - (sum_list v)\<^sup>2 / 2)
               = - (- (sum_list [3])\<^sup>2 / 2)" by blast
  from h l a b c d show ?thesis by blast
qed

end
